theory Spec2Isabelle
  imports Complex_Main
begin

section \<open>Values\<close>

text \<open>
  The model follows \<^verbatim>\<open>src/lib/rn-primitives/context-menu.tsx\<close>. JavaScript numbers
  are modelled as reals; the claims only use exactly representable coordinates.

  \<^verbatim>\<open>LayoutPosition\<close> is the object the trigger handlers build
  (\<^verbatim>\<open>{ width, pageX, pageY, height }\<close>); \<^verbatim>\<open>LayoutRectangle\<close> is React
  Native's \<^verbatim>\<open>{ x, y, width, height }\<close>, with its fields prefixed here because
  record fields are global names.
\<close>

record LayoutPosition =
  pageX :: real
  pageY :: real
  width :: real
  height :: real

record LayoutRectangle =
  layout_x :: real
  layout_y :: real
  layout_width :: real
  layout_height :: real

text \<open>The part of a \<^verbatim>\<open>GestureResponderEvent\<close> that the handlers read:
  \<^verbatim>\<open>ev.nativeEvent.pageX\<close> and \<^verbatim>\<open>ev.nativeEvent.pageY\<close>.\<close>

record GestureResponderEvent =
  nativeEvent_pageX :: real
  nativeEvent_pageY :: real

text \<open>
  The data fields of \<^verbatim>\<open>RootContext\<close> (lines 23-37): the controlled \<^verbatim>\<open>open\<close>
  prop, the two pieces of \<^verbatim>\<open>React.useState\<close> of \<^verbatim>\<open>Root\<close>, both initially
  \<^verbatim>\<open>null\<close>, and the id. Its function fields (\<^verbatim>\<open>setPressPosition\<close>,
  \<^verbatim>\<open>setContentLayout\<close>, \<^verbatim>\<open>onOpenChange\<close>, \<^verbatim>\<open>close\<close>) are the effects below.
\<close>

record RootContext =
  "open" :: bool
  pressPosition :: "LayoutPosition option"
  contentLayout :: "LayoutRectangle option"
  nativeID :: string

text \<open>The value \<^verbatim>\<open>Sub\<close> provides to \<^verbatim>\<open>SubContext\<close> (lines 601-607), without
  its callback.\<close>

record SubContextValue =
  sub_nativeID :: string
  sub_open :: bool

text \<open>A destructuring default, \<^verbatim>\<open>{ disabled = false, closeOnPress = true }\<close>:
  the default stands in for a prop that was not passed.\<close>

definition dflt :: "'a \<Rightarrow> 'a option \<Rightarrow> 'a" where
  "dflt d p = (case p of None \<Rightarrow> d | Some v \<Rightarrow> v)"

section \<open>Handlers as sequences of calls\<close>

text \<open>
  Every handler of the file is a straight-line sequence of calls: state setters of
  \<^verbatim>\<open>Root\<close>, the owner's \<^verbatim>\<open>onOpenChange\<close>, and callbacks passed as props. A handler
  is modelled as the list of the calls it makes, in the order the source makes them.
\<close>

datatype effect =
    SetPressPosition "LayoutPosition option"
  | SetContentLayout "LayoutRectangle option"
  | OnOpenChange bool
  | OnLongPressProp
  | OnAccessibilityActionProp
  | OnPressProp
  | OnSelect
  | OnLayoutProp
  | OnCheckedChange bool
  | OnValueChange string
  | BackHandlerRemove

text \<open>An optional callback prop, called as \<^verbatim>\<open>onSelect?.(ev)\<close>: the call is made
  only when the prop was passed.\<close>

definition optional_call :: "bool \<Rightarrow> effect \<Rightarrow> effect list" where
  "optional_call given e = (if given then [e] else [])"

text \<open>
  What one call does to the session. The two setters write \<^verbatim>\<open>Root\<close>'s state.

  Modelled from the spec: \<^verbatim>\<open>open\<close> and \<^verbatim>\<open>onOpenChange\<close> are props of \<^verbatim>\<open>Root\<close>,
  supplied by the owner of the menu, whose code is not in this file. The spec's session
  state holds \<^verbatim>\<open>open\<close> itself and has the operations set it, so the owner is taken to
  store the value it is handed (\<^verbatim>\<open>onOpenChange = setOpen\<close>). The other callbacks
  are opaque to the session and leave it as it is.
\<close>

fun apply_effect :: "effect \<Rightarrow> RootContext \<Rightarrow> RootContext" where
  "apply_effect (SetPressPosition p) s = s\<lparr>pressPosition := p\<rparr>"
| "apply_effect (SetContentLayout l) s = s\<lparr>contentLayout := l\<rparr>"
| "apply_effect (OnOpenChange v) s = s\<lparr>open := v\<rparr>"
| "apply_effect _ s = s"

fun exec :: "effect list \<Rightarrow> RootContext \<Rightarrow> RootContext" where
  "exec [] s = s"
| "exec (e # es) s = exec es (apply_effect e s)"

text \<open>The same for a submenu session, whose only state is its \<^verbatim>\<open>open\<close> prop.\<close>

fun apply_sub_effect :: "effect \<Rightarrow> SubContextValue \<Rightarrow> SubContextValue" where
  "apply_sub_effect (OnOpenChange v) s = s\<lparr>sub_open := v\<rparr>"
| "apply_sub_effect _ s = s"

fun exec_sub :: "effect list \<Rightarrow> SubContextValue \<Rightarrow> SubContextValue" where
  "exec_sub [] s = s"
| "exec_sub (e # es) s = exec_sub es (apply_sub_effect e s)"

subsection \<open>Root and Trigger\<close>

text \<open>\<^verbatim>\<open>Root.close\<close>, lines 51-55.\<close>

definition close :: "effect list" where
  "close = [SetPressPosition None, SetContentLayout None, OnOpenChange False]"

text \<open>\<^verbatim>\<open>Trigger.onLongPress\<close>, lines 106-117. \<^verbatim>\<open>open\<close> is the value the handler's
  closure took from the context at render.\<close>

definition Trigger_onLongPress ::
  "bool option \<Rightarrow> bool \<Rightarrow> RootContext \<Rightarrow> GestureResponderEvent \<Rightarrow> effect list" where
  "Trigger_onLongPress disabledProp hasOnLongPressProp ctx ev =
     (let disabled = dflt False disabledProp in
      if disabled then []
      else
        [SetPressPosition (Some \<lparr>pageX = nativeEvent_pageX ev, pageY = nativeEvent_pageY ev,
                                 width = 0, height = 0\<rparr>),
         OnOpenChange (\<not> open ctx)]
        @ optional_call hasOnLongPressProp OnLongPressProp)"

text \<open>\<^verbatim>\<open>Trigger.onAccessibilityAction\<close>, lines 119-132.\<close>

definition Trigger_onAccessibilityAction ::
  "bool option \<Rightarrow> bool \<Rightarrow> RootContext \<Rightarrow> string \<Rightarrow> effect list" where
  "Trigger_onAccessibilityAction disabledProp hasOnAccessibilityActionProp ctx actionName =
     (let disabled = dflt False disabledProp in
      if disabled then []
      else
        (if actionName = ''longpress''
         then [SetPressPosition (Some \<lparr>pageX = 0, pageY = 0, width = 0, height = 0\<rparr>),
               OnOpenChange (\<not> open ctx)]
         else [])
        @ optional_call hasOnAccessibilityActionProp OnAccessibilityActionProp)"

subsection \<open>Overlay, Content and the items\<close>

text \<open>\<^verbatim>\<open>Overlay.onPress\<close>, lines 208-213.\<close>

definition Overlay_onPress :: "bool option \<Rightarrow> bool \<Rightarrow> effect list" where
  "Overlay_onPress closeOnPressProp hasOnPressProp =
     (let closeOnPress = dflt True closeOnPressProp in
      (if closeOnPress then close else []) @ optional_call hasOnPressProp OnPressProp)"

text \<open>\<^verbatim>\<open>Content.onLayout\<close>, lines 304-307.\<close>

definition Content_onLayout :: "bool \<Rightarrow> LayoutRectangle \<Rightarrow> effect list" where
  "Content_onLayout hasOnLayoutProp layout =
     [SetContentLayout (Some layout)] @ optional_call hasOnLayoutProp OnLayoutProp"

text \<open>The effect of \<^verbatim>\<open>Content\<close>, lines 278-291: the listener for
  \<^verbatim>\<open>hardwareBackPress\<close> and the cleanup that runs when \<^verbatim>\<open>Content\<close> unmounts.\<close>

definition Content_hardwareBackPress :: "effect list" where
  "Content_hardwareBackPress = close"

definition Content_cleanup :: "effect list" where
  "Content_cleanup = [SetContentLayout None, BackHandlerRemove]"

text \<open>\<^verbatim>\<open>Item.onPress\<close>, lines 353-359.\<close>

definition Item_onPress :: "bool option \<Rightarrow> bool \<Rightarrow> bool \<Rightarrow> effect list" where
  "Item_onPress closeOnPressProp hasOnSelect hasOnPressProp =
     (let closeOnPress = dflt True closeOnPressProp in
      (if closeOnPress then close else [])
      @ optional_call hasOnSelect OnSelect
      @ optional_call hasOnPressProp OnPressProp)"

text \<open>\<^verbatim>\<open>CheckboxItem.onPress\<close>, lines 432-439.\<close>

definition CheckboxItem_onPress :: "bool \<Rightarrow> bool option \<Rightarrow> bool \<Rightarrow> bool \<Rightarrow> effect list" where
  "CheckboxItem_onPress checked closeOnPressProp hasOnSelect hasOnPressProp =
     (let closeOnPress = dflt True closeOnPressProp in
      [OnCheckedChange (\<not> checked)]
      @ (if closeOnPress then close else [])
      @ optional_call hasOnSelect OnSelect
      @ optional_call hasOnPressProp OnPressProp)"

text \<open>\<^verbatim>\<open>RadioItem.onPress\<close>, lines 520-527.\<close>

definition RadioItem_onPress :: "string \<Rightarrow> bool option \<Rightarrow> bool \<Rightarrow> bool \<Rightarrow> effect list" where
  "RadioItem_onPress itemValue closeOnPressProp hasOnSelect hasOnPressProp =
     (let closeOnPress = dflt True closeOnPressProp in
      [OnValueChange itemValue]
      @ (if closeOnPress then close else [])
      @ optional_call hasOnSelect OnSelect
      @ optional_call hasOnPressProp OnPressProp)"

subsection \<open>SubTrigger\<close>

text \<open>\<^verbatim>\<open>SubTrigger.onPress\<close>, lines 655-658.\<close>

definition SubTrigger_onPress :: "bool \<Rightarrow> SubContextValue \<Rightarrow> effect list" where
  "SubTrigger_onPress hasOnPressProp ctx =
     [OnOpenChange (\<not> sub_open ctx)] @ optional_call hasOnPressProp OnPressProp"

section \<open>Context lookup\<close>

datatype error = Error string

text \<open>
  What \<^verbatim>\<open>React.useContext\<close> can hand to a hook: the value of the nearest enclosing
  \<^verbatim>\<open>Provider\<close>, or else the default that was given to \<^verbatim>\<open>React.createContext\<close>.
  Every context of the file is created with the empty object \<^verbatim>\<open>{}\<close> as its default
  (lines 39, 405, 493, 601). \<^verbatim>\<open>Undefined\<close> is the value a context without a default
  would give; it is the only one of the three that \<^verbatim>\<open>!context\<close> takes for absent.
\<close>

datatype 'a context_value = Undefined | EmptyObject | Provided 'a

fun truthy :: "'a context_value \<Rightarrow> bool" where
  "truthy Undefined = False"
| "truthy EmptyObject = True"
| "truthy (Provided v) = True"

text \<open>The second argument is the value of the nearest enclosing provider, if there
  is one.\<close>

definition useContext :: "'a context_value \<Rightarrow> 'a option \<Rightarrow> 'a context_value" where
  "useContext default_value provider =
     (case provider of None \<Rightarrow> default_value | Some v \<Rightarrow> Provided v)"

text \<open>Reading a field of the object a hook returned. A field of \<^verbatim>\<open>{}\<close> is
  \<^verbatim>\<open>undefined\<close>, here \<open>None\<close>. (No hook of the file returns \<open>Undefined\<close>.)\<close>

fun read :: "('a \<Rightarrow> 'b) \<Rightarrow> 'a context_value \<Rightarrow> 'b option" where
  "read f (Provided c) = Some (f c)"
| "read f EmptyObject = None"
| "read f Undefined = None"

text \<open>\<^verbatim>\<open>!b\<close> on a boolean that may be \<^verbatim>\<open>undefined\<close>, and \<^verbatim>\<open>!o\<close> on an object
  that may be \<^verbatim>\<open>null\<close> or \<^verbatim>\<open>undefined\<close>, are the negations of these.\<close>

definition truthy_bool :: "bool option \<Rightarrow> bool" where
  "truthy_bool b = (b = Some True)"

definition truthy_object :: "'a option option \<Rightarrow> bool" where
  "truthy_object v = (case v of Some (Some _) \<Rightarrow> True | _ \<Rightarrow> False)"

text \<open>\<^verbatim>\<open>React.createContext({} as RootContext)\<close>, line 39.\<close>

definition ContextMenuContext :: "RootContext context_value" where
  "ContextMenuContext = EmptyObject"

text \<open>\<^verbatim>\<open>useContextMenuContext\<close>, lines 78-86.\<close>

definition useContextMenuContext :: "RootContext option \<Rightarrow> error + RootContext context_value" where
  "useContextMenuContext provider =
     (let context = useContext ContextMenuContext provider in
      if \<not> truthy context
      then Inl (Error ''ContextMenu compound components cannot be rendered outside the ContextMenu component'')
      else Inr context)"

text \<open>\<^verbatim>\<open>FormItemContext\<close>, lines 398-405: \<^verbatim>\<open>{ checked }\<close> from a
  \<^verbatim>\<open>CheckboxItem\<close>, or \<^verbatim>\<open>{ value, onValueChange }\<close> from a \<^verbatim>\<open>RadioGroup\<close>, whose
  \<^verbatim>\<open>value\<close> may be \<^verbatim>\<open>undefined\<close>.\<close>

datatype FormItemContext = CheckboxForm bool | RadioForm "string option"

definition FormItemContext :: "FormItemContext context_value" where
  "FormItemContext = EmptyObject"

text \<open>\<^verbatim>\<open>useFormItemContext\<close>, lines 462-470.\<close>

definition useFormItemContext ::
  "FormItemContext option \<Rightarrow> error + FormItemContext context_value" where
  "useFormItemContext provider =
     (let context = useContext FormItemContext provider in
      if \<not> truthy context
      then Inl (Error ''CheckboxItem or RadioItem compound components cannot be rendered outside of a CheckboxItem or RadioItem component'')
      else Inr context)"

text \<open>\<^verbatim>\<open>SubContext\<close> and \<^verbatim>\<open>useSubContext\<close>, lines 601-607 and 633-641.\<close>

definition SubContext :: "SubContextValue context_value" where
  "SubContext = EmptyObject"

definition useSubContext :: "SubContextValue option \<Rightarrow> error + SubContextValue context_value" where
  "useSubContext provider =
     (let context = useContext SubContext provider in
      if \<not> truthy context
      then Inl (Error ''Sub compound components cannot be rendered outside of a Sub component'')
      else Inr context)"

text \<open>
  \<^verbatim>\<open>RadioItemContext\<close> and \<^verbatim>\<open>useItemIndicatorContext\<close>, lines 493 and 552-558. The
  object holds \<^verbatim>\<open>itemValue\<close>: a string from a \<^verbatim>\<open>RadioItem\<close>, \<^verbatim>\<open>null\<close> (here
  \<open>None\<close>) in the hook's fallback object.
\<close>

definition RadioItemContext :: "string option context_value" where
  "RadioItemContext = EmptyObject"

definition useItemIndicatorContext :: "string option \<Rightarrow> string option context_value" where
  "useItemIndicatorContext provider =
     (let context = useContext RadioItemContext (map_option Some provider) in
      if \<not> truthy context then Provided None else context)"

text \<open>A JavaScript value that is a string, \<^verbatim>\<open>null\<close> or \<^verbatim>\<open>undefined\<close>; \<^verbatim>\<open>===\<close>
  on such values is equality of this type, and \<^verbatim>\<open>== null\<close> holds of
  \<^verbatim>\<open>undefined\<close> and \<^verbatim>\<open>null\<close>.\<close>

datatype js_string = JSUndefined | JSNull | JSString string

fun loosely_null :: "js_string \<Rightarrow> bool" where
  "loosely_null JSUndefined = True"
| "loosely_null JSNull = True"
| "loosely_null (JSString v) = False"

section \<open>Rendering\<close>

text \<open>
  A component either raises, renders nothing (\<^verbatim>\<open>return null\<close>, here \<open>None\<close>) or
  renders one element. Of the element the model keeps the component it is made of
  (\<^verbatim>\<open>asChild ? Slot.Pressable : Pressable\<close>) and its role, and for the portal its host
  and name; the other props are passed through unread.
\<close>

datatype component = Pressable | View | Slot_Pressable | Slot_View

datatype element =
    Element component "string option"
  | RNPPortal "string option" string

text \<open>\<^verbatim>\<open>Portal\<close>, lines 156-185. \<open>id'\<close> is the result of \<^verbatim>\<open>React.useId()\<close>.\<close>

definition Portal ::
  "bool option \<Rightarrow> string option \<Rightarrow> string \<Rightarrow> RootContext option \<Rightarrow> error + element option" where
  "Portal forceMountProp hostName id' provider =
     (let forceMount = dflt False forceMountProp in
      case useContextMenuContext provider of
        Inl e \<Rightarrow> Inl e
      | Inr v \<Rightarrow>
          (let rendered = Inr (Some (RNPPortal hostName
                 (id' @ ''-'' @ (case read nativeID v of None \<Rightarrow> ''undefined'' | Some n \<Rightarrow> n)
                  @ ''_portal'')))
           in
           if \<not> truthy_object (read pressPosition v) then Inr None
           else if \<not> forceMount then
             (if \<not> truthy_bool (read open v) then Inr None else rendered)
           else rendered))"

text \<open>\<^verbatim>\<open>Overlay\<close>, lines 187-231.\<close>

definition Overlay :: "bool \<Rightarrow> bool option \<Rightarrow> RootContext option \<Rightarrow> error + element option" where
  "Overlay asChild forceMountProp provider =
     (let forceMount = dflt False forceMountProp in
      case useContextMenuContext provider of
        Inl e \<Rightarrow> Inl e
      | Inr v \<Rightarrow>
          (let rendered = Inr (Some (Element (if asChild then Slot_Pressable else Pressable) None))
           in
           if \<not> forceMount then
             (if \<not> truthy_bool (read open v) then Inr None else rendered)
           else rendered))"

text \<open>\<^verbatim>\<open>Content\<close>, lines 249-328. The style it computes with the hook
  \<^verbatim>\<open>useRelativePosition\<close> is a prop of the element and does not decide whether the
  element is rendered.\<close>

definition Content :: "bool \<Rightarrow> bool option \<Rightarrow> RootContext option \<Rightarrow> error + element option" where
  "Content asChild forceMountProp provider =
     (let forceMount = dflt False forceMountProp in
      case useContextMenuContext provider of
        Inl e \<Rightarrow> Inl e
      | Inr v \<Rightarrow>
          (let rendered =
                 Inr (Some (Element (if asChild then Slot_Pressable else Pressable) (Some ''menu'')))
           in
           if \<not> forceMount then
             (if \<not> truthy_bool (read open v) then Inr None else rendered)
           else rendered))"

text \<open>\<^verbatim>\<open>Item\<close>, lines 332-375.\<close>

definition Item :: "bool \<Rightarrow> RootContext option \<Rightarrow> error + element option" where
  "Item asChild provider =
     (case useContextMenuContext provider of
        Inl e \<Rightarrow> Inl e
      | Inr v \<Rightarrow> Inr (Some (Element (if asChild then Slot_Pressable else Pressable) (Some ''menuitem''))))"

text \<open>\<^verbatim>\<open>RadioItem\<close>, lines 495-548.\<close>

definition RadioItem ::
  "bool \<Rightarrow> RootContext option \<Rightarrow> FormItemContext option \<Rightarrow> error + element option" where
  "RadioItem asChild provider formProvider =
     (case useContextMenuContext provider of
        Inl e \<Rightarrow> Inl e
      | Inr v \<Rightarrow>
          (case useFormItemContext formProvider of
             Inl e \<Rightarrow> Inl e
           | Inr f \<Rightarrow> Inr (Some (Element (if asChild then Slot_Pressable else Pressable) (Some ''radio'')))))"

text \<open>
  \<^verbatim>\<open>ItemIndicator\<close>, lines 560-579. \<^verbatim>\<open>forceMount\<close> has no default here. The
  destructured \<^verbatim>\<open>itemValue\<close>, \<^verbatim>\<open>checked\<close> and \<^verbatim>\<open>value\<close> are
  \<^verbatim>\<open>undefined\<close> where the object they are read from has no such field.
\<close>

definition ItemIndicator ::
  "bool \<Rightarrow> bool option \<Rightarrow> string option \<Rightarrow> FormItemContext option \<Rightarrow> error + element option" where
  "ItemIndicator asChild forceMount radioProvider formProvider =
     (let itemValue =
            (case useItemIndicatorContext radioProvider of
               Provided (Some i) \<Rightarrow> JSString i
             | Provided None \<Rightarrow> JSNull
             | _ \<Rightarrow> JSUndefined)
      in
      case useFormItemContext formProvider of
        Inl e \<Rightarrow> Inl e
      | Inr f \<Rightarrow>
          (let checked = (case f of Provided (CheckboxForm c) \<Rightarrow> Some c | _ \<Rightarrow> None);
               value = (case f of Provided (RadioForm (Some w)) \<Rightarrow> JSString w | _ \<Rightarrow> JSUndefined);
               rendered =
                 Inr (Some (Element (if asChild then Slot_View else View) (Some ''presentation'')))
           in
           if \<not> truthy_bool forceMount then
             (if loosely_null itemValue \<and> \<not> truthy_bool checked then Inr None
              else if value \<noteq> itemValue then Inr None
              else rendered)
           else rendered))"

text \<open>\<^verbatim>\<open>SubContent\<close>, lines 680-698.\<close>

definition SubContent ::
  "bool \<Rightarrow> bool option \<Rightarrow> SubContextValue option \<Rightarrow> error + element option" where
  "SubContent asChild forceMountProp provider =
     (let forceMount = dflt False forceMountProp in
      case useSubContext provider of
        Inl e \<Rightarrow> Inl e
      | Inr v \<Rightarrow>
          (let rendered = Inr (Some (Element (if asChild then Slot_View else View) (Some ''group'')))
           in
           if \<not> forceMount then
             (if \<not> truthy_bool (read sub_open v) then Inr None else rendered)
           else rendered))"

section \<open>Sessions\<close>

text \<open>A session as \<^verbatim>\<open>Root\<close> mounts it under an owner whose \<^verbatim>\<open>open\<close> starts false:
  both \<^verbatim>\<open>useState\<close> cells hold \<^verbatim>\<open>null\<close> (lines 46-49).\<close>

definition initial :: "string \<Rightarrow> RootContext" where
  "initial i = \<lparr>open = False, pressPosition = None, contentLayout = None, nativeID = i\<rparr>"

section \<open>Events\<close>

text \<open>
  The events a session receives, each with the props of the component that handles it:
  \<^verbatim>\<open>disabled\<close> of the trigger, \<^verbatim>\<open>closeOnPress\<close> of the overlay and the items,
  \<^verbatim>\<open>forceMount\<close> of the content. Callback props are taken as passed; they do not
  touch the session.
\<close>

datatype event =
    LongPress "bool option" GestureResponderEvent
  | AccessibilityAction "bool option" string
  | OverlayPress "bool option"
  | ItemPress "bool option"
  | CheckboxItemPress bool "bool option"
  | RadioItemPress string "bool option"
  | HardwareBackPress
  | Layout "bool option" LayoutRectangle
  | ContentUnmount

text \<open>
  One event. \<^verbatim>\<open>onLayout\<close> is a prop of the element \<^verbatim>\<open>Content\<close> renders (line 323),
  so a measurement reaches \<^verbatim>\<open>Content.onLayout\<close> only while \<^verbatim>\<open>Content\<close> renders that
  element; the handler itself tests nothing.
\<close>

fun step :: "event \<Rightarrow> RootContext \<Rightarrow> RootContext" where
  "step (LongPress disabledProp ev) s = exec (Trigger_onLongPress disabledProp True s ev) s"
| "step (AccessibilityAction disabledProp actionName) s =
     exec (Trigger_onAccessibilityAction disabledProp True s actionName) s"
| "step (OverlayPress closeOnPressProp) s = exec (Overlay_onPress closeOnPressProp True) s"
| "step (ItemPress closeOnPressProp) s = exec (Item_onPress closeOnPressProp True True) s"
| "step (CheckboxItemPress checked closeOnPressProp) s =
     exec (CheckboxItem_onPress checked closeOnPressProp True True) s"
| "step (RadioItemPress itemValue closeOnPressProp) s =
     exec (RadioItem_onPress itemValue closeOnPressProp True True) s"
| "step HardwareBackPress s = exec Content_hardwareBackPress s"
| "step (Layout forceMountProp layout) s =
     (case Content False forceMountProp (Some s) of
        Inr (Some el) \<Rightarrow> exec (Content_onLayout True layout) s
      | _ \<Rightarrow> s)"
| "step ContentUnmount s = exec Content_cleanup s"

fun run :: "event list \<Rightarrow> RootContext \<Rightarrow> RootContext" where
  "run [] s = s"
| "run (e # es) s = run es (step e s)"

text \<open>Every state a session is seen in while it receives the events, the first
  included.\<close>

fun states :: "RootContext \<Rightarrow> event list \<Rightarrow> RootContext list" where
  "states s [] = [s]"
| "states s (e # es) = s # states (step e s) es"

text \<open>The invariant of the specification: a session that is not open holds neither
  an anchor nor a content layout.\<close>

definition closed_is_reset :: "RootContext \<Rightarrow> bool" where
  "closed_is_reset s = (if open s then True else pressPosition s = None \<and> contentLayout s = None)"

text \<open>
  An event comes at the time the specification's state machine has it: an activation
  of a trigger that is not disabled finds the menu closed, and a measurement of a
  force-mounted content finds it open.
\<close>

fun well_timed :: "event \<Rightarrow> RootContext \<Rightarrow> bool" where
  "well_timed (LongPress disabledProp ev) s =
     (if dflt False disabledProp then True else \<not> open s)"
| "well_timed (AccessibilityAction disabledProp actionName) s =
     (if dflt False disabledProp then True
      else if actionName = ''longpress'' then \<not> open s else True)"
| "well_timed (Layout forceMountProp layout) s =
     (if dflt False forceMountProp then open s else True)"
| "well_timed e s = True"

fun well_timed_run :: "RootContext \<Rightarrow> event list \<Rightarrow> bool" where
  "well_timed_run s [] = True"
| "well_timed_run s (e # es) = (well_timed e s \<and> well_timed_run (step e s) es)"

text \<open>Some call of \<open>a\<close> is made before some call of \<open>b\<close>.\<close>

fun called_before :: "effect \<Rightarrow> effect \<Rightarrow> effect list \<Rightarrow> bool" where
  "called_before a b [] = False"
| "called_before a b (e # es) = ((e = a \<and> b \<in> set es) \<or> called_before a b es)"

subsection \<open>What a callback sees while a handler runs\<close>

text \<open>
  A handler runs against the session of the render that created it. \<^verbatim>\<open>setPressPosition\<close>
  and \<^verbatim>\<open>setContentLayout\<close> are setters of \<^verbatim>\<open>React.useState\<close>, and \<^verbatim>\<open>onOpenChange\<close> is
  the owner's setter: a call schedules the update, which takes effect once the handler
  has returned. A callback prop called in between is handed nothing of the session and
  finds it as it was rendered. The record holds the rendered session, the updates
  scheduled so far, and each callback called so far with the session it found.
\<close>

record handling =
  at_render :: RootContext
  scheduled :: "effect list"
  seen :: "(effect \<times> RootContext) list"

fun call :: "effect \<Rightarrow> handling \<Rightarrow> handling" where
  "call (SetPressPosition p) h = h\<lparr>scheduled := scheduled h @ [SetPressPosition p]\<rparr>"
| "call (SetContentLayout l) h = h\<lparr>scheduled := scheduled h @ [SetContentLayout l]\<rparr>"
| "call (OnOpenChange v) h = h\<lparr>scheduled := scheduled h @ [OnOpenChange v]\<rparr>"
| "call e h = h\<lparr>seen := seen h @ [(e, at_render h)]\<rparr>"

fun handle :: "effect list \<Rightarrow> handling \<Rightarrow> handling" where
  "handle [] h = h"
| "handle (e # es) h = handle es (call e h)"

definition start :: "RootContext \<Rightarrow> handling" where
  "start s = \<lparr>at_render = s, scheduled = [], seen = []\<rparr>"

text \<open>The session of the next render: the scheduled updates, applied in order.\<close>

definition commit :: "handling \<Rightarrow> RootContext" where
  "commit h = exec (scheduled h) (at_render h)"

text \<open>The session the callback \<open>c\<close> finds when the handler \<open>es\<close> runs on the
  rendered session \<open>s\<close>; \<open>None\<close> when the handler does not call it.\<close>

definition seen_by :: "effect \<Rightarrow> effect list \<Rightarrow> RootContext \<Rightarrow> RootContext option" where
  "seen_by c es s = map_of (seen (handle es (start s))) c"

section \<open>The positioning engine\<close>

text \<open>
  \<^verbatim>\<open>Content\<close> takes its position from the hook \<^verbatim>\<open>useRelativePosition\<close>, imported
  from \<^verbatim>\<open>./hooks/useRelativePosition\<close> (lines 17-21, 293-302); that file is not among
  the sources. The engine below is written from section 4.2 of the specification.
\<close>

datatype side = Top | Bottom

datatype align = Start | Center | End

record AnchorPoint =
  anchor_x :: real
  anchor_y :: real
  anchor_width :: real
  anchor_height :: real

record Insets =
  insets_top :: real
  insets_bottom :: real
  insets_left :: real
  insets_right :: real

record Viewport =
  viewportWidth :: real
  viewportHeight :: real

record PlacementPreferences =
  side :: side
  align :: align
  sideOffset :: real
  alignOffset :: real
  avoidCollisions :: bool
  insets :: Insets

text \<open>The result: the side the panel was placed on, \<^verbatim>\<open>top\<close>, \<^verbatim>\<open>left\<close> and
  \<^verbatim>\<open>maxWidth\<close>; or, before the content was measured, a style that hides the
  panel.\<close>

datatype Style = Unmeasured | Positioned side real real real

text \<open>Modelled from the spec: steps 2 and 3 of section 4.2, the candidate position
  on the primary axis for a side and on the cross axis for an alignment. The hook that
  computes them is missing from the sources.\<close>

fun primary_position :: "side \<Rightarrow> AnchorPoint \<Rightarrow> LayoutRectangle \<Rightarrow> real \<Rightarrow> real" where
  "primary_position Bottom a c off = anchor_y a + anchor_height a + off"
| "primary_position Top a c off = anchor_y a - layout_height c - off"

fun cross_position :: "align \<Rightarrow> AnchorPoint \<Rightarrow> LayoutRectangle \<Rightarrow> real \<Rightarrow> real" where
  "cross_position Start a c off = anchor_x a + off"
| "cross_position Center a c off = anchor_x a + anchor_width a / 2 - layout_width c / 2 + off"
| "cross_position End a c off = anchor_x a + anchor_width a - layout_width c + off"

text \<open>Modelled from the spec: the test of the flip rule of step 5. A panel placed
  below overflows when its bottom edge exceeds \<^verbatim>\<open>viewportHeight - insets.bottom\<close>; one
  placed above, when its top goes past \<^verbatim>\<open>insets.top\<close>.\<close>

fun overflows :: "side \<Rightarrow> real \<Rightarrow> LayoutRectangle \<Rightarrow> Insets \<Rightarrow> Viewport \<Rightarrow> bool" where
  "overflows Bottom t c i v = (t + layout_height c > viewportHeight v - insets_bottom i)"
| "overflows Top t c i v = (t < insets_top i)"

fun opposite :: "side \<Rightarrow> side" where
  "opposite Bottom = Top"
| "opposite Top = Bottom"

text \<open>Modelled from the spec: the horizontal clamp of step 5, to
  \<^verbatim>\<open>[insets.left, viewportWidth - insets.right - contentLayout.width]\<close>, pinned to
  \<^verbatim>\<open>insets.left\<close> when that range is empty.\<close>

definition clamp_left :: "real \<Rightarrow> LayoutRectangle \<Rightarrow> Insets \<Rightarrow> Viewport \<Rightarrow> real" where
  "clamp_left l c i v =
     (let lo = insets_left i; hi = viewportWidth v - insets_right i - layout_width c in
      if hi < lo then lo else max lo (min hi l))"

text \<open>Modelled from the spec: the last case of the flip rule, both sides
  overflowing: the requested side is kept and the panel is moved back to the inset
  boundary it overran.\<close>

fun clamp_to_boundary :: "side \<Rightarrow> LayoutRectangle \<Rightarrow> Insets \<Rightarrow> Viewport \<Rightarrow> real" where
  "clamp_to_boundary Bottom c i v = viewportHeight v - insets_bottom i - layout_height c"
| "clamp_to_boundary Top c i v = insets_top i"

text \<open>Modelled from the spec: \<^verbatim>\<open>computePlacement\<close>, section 4.2, steps 1 to 6; the
  vertical side is settled first, the horizontal clamp is independent of it.\<close>

definition computePlacement ::
  "AnchorPoint \<Rightarrow> LayoutRectangle option \<Rightarrow> PlacementPreferences \<Rightarrow> Viewport \<Rightarrow> Style" where
  "computePlacement a contentLayout' prefs v =
     (case contentLayout' of
        None \<Rightarrow> Unmeasured
      | Some c \<Rightarrow>
          (let i = insets prefs;
               maxWidth = viewportWidth v - insets_left i - insets_right i;
               t = primary_position (side prefs) a c (sideOffset prefs);
               l = cross_position (align prefs) a c (alignOffset prefs)
           in
           if \<not> avoidCollisions prefs then Positioned (side prefs) t l maxWidth
           else
             (let flipped = primary_position (opposite (side prefs)) a c (sideOffset prefs);
                  l' = clamp_left l c i v
              in
              if \<not> overflows (side prefs) t c i v then Positioned (side prefs) t l' maxWidth
              else if \<not> overflows (opposite (side prefs)) flipped c i v
              then Positioned (opposite (side prefs)) flipped l' maxWidth
              else Positioned (side prefs) (clamp_to_boundary (side prefs) c i v) l' maxWidth)))"

section \<open>Properties of the handlers\<close>

lemmas handler_defs =
  Trigger_onLongPress_def Trigger_onAccessibilityAction_def Overlay_onPress_def
  Item_onPress_def CheckboxItem_onPress_def RadioItem_onPress_def
  Content_hardwareBackPress_def Content_cleanup_def Content_onLayout_def
  optional_call_def close_def

lemmas render_defs =
  Portal_def Overlay_def Content_def Item_def RadioItem_def ItemIndicator_def SubContent_def
  useContextMenuContext_def useFormItemContext_def useSubContext_def
  useItemIndicatorContext_def useContext_def
  ContextMenuContext_def FormItemContext_def SubContext_def RadioItemContext_def
  truthy_bool_def truthy_object_def Let_def

lemma exec_close: "exec close s = s\<lparr>pressPosition := None, contentLayout := None, open := False\<rparr>"
  by (simp add: close_def)

text \<open>
  C10. Calling \<^verbatim>\<open>close()\<close> on a session that is already closed (\<^verbatim>\<open>open\<close> false,
  \<^verbatim>\<open>pressPosition\<close> and \<^verbatim>\<open>contentLayout\<close> null) leaves the session as it is.
\<close>

theorem close_idempotent_on_closed:
  assumes "\<not> open s" and "pressPosition s = None" and "contentLayout s = None"
  shows "exec close s = s"
  using assms by (simp add: exec_close)

theorem close_idempotent_on_closed_witness:
  "\<not> open (initial ''r1'') \<and> pressPosition (initial ''r1'') = None
   \<and> contentLayout (initial ''r1'') = None
   \<and> exec close (initial ''r1'') = initial ''r1''"
  using close_idempotent_on_closed [of "initial ''r1''"] by (simp add: initial_def)

text \<open>
  C8. A press of a submenu trigger toggles the submenu's \<^verbatim>\<open>open\<close> and changes nothing
  else; two presses in a row bring the session back to the state it had, so a closed
  submenu is closed again.
\<close>

theorem SubTrigger_onPress_toggles:
  "sub_open (exec_sub (SubTrigger_onPress p s) s) = (\<not> sub_open s)
   \<and> sub_nativeID (exec_sub (SubTrigger_onPress p s) s) = sub_nativeID s
   \<and> exec_sub (SubTrigger_onPress q (exec_sub (SubTrigger_onPress p s) s))
         (exec_sub (SubTrigger_onPress p s) s) = s"
  by (cases p; cases q) (simp_all add: SubTrigger_onPress_def optional_call_def)

text \<open>
  C9. On a trigger that is not disabled, the accessibility action named
  \<^verbatim>\<open>longpress\<close> sets \<^verbatim>\<open>pressPosition\<close> to the origin with zero size and changes
  \<^verbatim>\<open>open\<close> to its negation; \<^verbatim>\<open>contentLayout\<close> and the id are untouched.
\<close>

theorem Trigger_onAccessibilityAction_longpress:
  assumes "\<not> dflt False disabledProp"
  shows "exec (Trigger_onAccessibilityAction disabledProp h s ''longpress'') s
         = s\<lparr>pressPosition := Some \<lparr>pageX = 0, pageY = 0, width = 0, height = 0\<rparr>,
              open := \<not> open s\<rparr>"
  using assms
  by (cases h) (simp_all add: Trigger_onAccessibilityAction_def optional_call_def)

theorem Trigger_onAccessibilityAction_longpress_witness:
  "\<not> dflt False None
   \<and> exec (Trigger_onAccessibilityAction None True (initial ''r1'') ''longpress'') (initial ''r1'')
       = \<lparr>open = True,
          pressPosition = Some \<lparr>pageX = 0, pageY = 0, width = 0, height = 0\<rparr>,
          contentLayout = None, nativeID = ''r1''\<rparr>"
  using Trigger_onAccessibilityAction_longpress [of None True "initial ''r1''"]
  by (simp add: initial_def dflt_def)

text \<open>
  C5, as amended. A long press on a trigger that is not disabled sets
  \<^verbatim>\<open>pressPosition\<close> to the point of the press, with zero size, and changes
  \<^verbatim>\<open>open\<close> to its negation: a closed menu opens, an open menu takes the new anchor and
  closes. \<^verbatim>\<open>contentLayout\<close> and the id are untouched.
\<close>

theorem Trigger_onLongPress_toggles:
  assumes "\<not> dflt False disabledProp"
  shows "exec (Trigger_onLongPress disabledProp h s ev) s
         = s\<lparr>pressPosition := Some \<lparr>pageX = nativeEvent_pageX ev, pageY = nativeEvent_pageY ev,
                                      width = 0, height = 0\<rparr>,
              open := \<not> open s\<rparr>"
  using assms by (cases h) (simp_all add: Trigger_onLongPress_def optional_call_def)

theorem Trigger_onLongPress_toggles_witness:
  "\<not> dflt False None
   \<and> exec (Trigger_onLongPress None True (initial ''r1'')
             \<lparr>nativeEvent_pageX = 10, nativeEvent_pageY = 20\<rparr>) (initial ''r1'')
       = \<lparr>open = True, pressPosition = Some \<lparr>pageX = 10, pageY = 20, width = 0, height = 0\<rparr>,
          contentLayout = None, nativeID = ''r1''\<rparr>"
  using Trigger_onLongPress_toggles [of None True "initial ''r1''"
          "\<lparr>nativeEvent_pageX = 10, nativeEvent_pageY = 20\<rparr>"]
  by (simp add: initial_def dflt_def)

text \<open>C5 as stated fails: a long press at (30, 40) on the trigger of a menu that is
  open leaves the menu closed, not open.\<close>

theorem long_press_while_open_closes:
  "\<not> open (exec (Trigger_onLongPress None True
                \<lparr>open = True, pressPosition = Some \<lparr>pageX = 10, pageY = 20, width = 0, height = 0\<rparr>,
                  contentLayout = None, nativeID = ''r1''\<rparr>
                \<lparr>nativeEvent_pageX = 30, nativeEvent_pageY = 40\<rparr>)
              \<lparr>open = True, pressPosition = Some \<lparr>pageX = 10, pageY = 20, width = 0, height = 0\<rparr>,
                contentLayout = None, nativeID = ''r1''\<rparr>)"
  by (simp add: handler_defs dflt_def)

section \<open>The invariant of a closed session\<close>

lemma step_Layout:
  "step (Layout forceMountProp layout) s =
     (if dflt False forceMountProp \<or> open s then s\<lparr>contentLayout := Some layout\<rparr> else s)"
  by (simp add: render_defs handler_defs)

lemma step_preserves_closed_is_reset:
  "closed_is_reset s \<Longrightarrow> well_timed e s \<Longrightarrow> closed_is_reset (step e s)"
  by (cases e)
    (auto simp: closed_is_reset_def handler_defs step_Layout simp del: step.simps(8)
      split: if_splits)

text \<open>
  C1, as amended. Take a session in which a closed menu holds no anchor and no content
  layout, and a sequence of operations (long press, accessibility action, overlay, item
  and back presses, layout measurements, content unmount) in which every activation of
  a trigger that is not disabled arrives while the menu is closed and every measurement
  of a force-mounted content arrives while it is open. Then in every state the session
  passes through, \<^verbatim>\<open>open\<close> false implies \<^verbatim>\<open>pressPosition\<close> and
  \<^verbatim>\<open>contentLayout\<close> null.
\<close>

theorem well_timed_sessions_keep_closed_reset:
  assumes "closed_is_reset s" and "well_timed_run s es"
  shows "list_all closed_is_reset (states s es)"
  using assms
proof (induction es arbitrary: s)
  case Nil
  then show ?case by simp
next
  case (Cons e es)
  from Cons.prems have "closed_is_reset (step e s)"
    by (simp add: step_preserves_closed_is_reset)
  with Cons show ?case by simp
qed

theorem well_timed_sessions_keep_closed_reset_witness:
  "closed_is_reset (initial ''r1'')
   \<and> well_timed_run (initial ''r1'')
        [LongPress None \<lparr>nativeEvent_pageX = 10, nativeEvent_pageY = 20\<rparr>,
         Layout None \<lparr>layout_x = 0, layout_y = 0, layout_width = 200, layout_height = 150\<rparr>,
         ItemPress None,
         Layout None \<lparr>layout_x = 0, layout_y = 0, layout_width = 200, layout_height = 150\<rparr>,
         AccessibilityAction None ''longpress'',
         HardwareBackPress,
         ContentUnmount]
   \<and> list_all closed_is_reset (states (initial ''r1'')
        [LongPress None \<lparr>nativeEvent_pageX = 10, nativeEvent_pageY = 20\<rparr>,
         Layout None \<lparr>layout_x = 0, layout_y = 0, layout_width = 200, layout_height = 150\<rparr>,
         ItemPress None,
         Layout None \<lparr>layout_x = 0, layout_y = 0, layout_width = 200, layout_height = 150\<rparr>,
         AccessibilityAction None ''longpress'',
         HardwareBackPress,
         ContentUnmount])"
proof -
  let ?es = "[LongPress None \<lparr>nativeEvent_pageX = 10, nativeEvent_pageY = 20\<rparr>,
         Layout None \<lparr>layout_x = 0, layout_y = 0, layout_width = 200, layout_height = 150\<rparr>,
         ItemPress None,
         Layout None \<lparr>layout_x = 0, layout_y = 0, layout_width = 200, layout_height = 150\<rparr>,
         AccessibilityAction None ''longpress'',
         HardwareBackPress,
         ContentUnmount]"
  have h1: "closed_is_reset (initial ''r1'')"
    by (simp add: closed_is_reset_def initial_def)
  have h2: "well_timed_run (initial ''r1'') ?es"
    by (simp add: initial_def handler_defs step_Layout dflt_def del: step.simps(8))
  from h1 h2 well_timed_sessions_keep_closed_reset [OF h1 h2] show ?thesis by simp
qed

text \<open>C1 as stated fails: after a long press at (10, 20) and a second one at
  (30, 40) on a fresh session, \<^verbatim>\<open>open\<close> is false and \<^verbatim>\<open>pressPosition\<close> is the
  second point.\<close>

theorem reactivation_breaks_closed_reset:
  "\<not> open (run [LongPress None \<lparr>nativeEvent_pageX = 10, nativeEvent_pageY = 20\<rparr>,
                 LongPress None \<lparr>nativeEvent_pageX = 30, nativeEvent_pageY = 40\<rparr>] (initial ''r1''))
   \<and> pressPosition (run [LongPress None \<lparr>nativeEvent_pageX = 10, nativeEvent_pageY = 20\<rparr>,
                 LongPress None \<lparr>nativeEvent_pageX = 30, nativeEvent_pageY = 40\<rparr>] (initial ''r1''))
       = Some \<lparr>pageX = 30, pageY = 40, width = 0, height = 0\<rparr>"
  by (simp add: initial_def handler_defs dflt_def)

text \<open>
  C2, as amended. A layout measurement that arrives while the session is closed
  changes nothing when \<^verbatim>\<open>Content\<close> is not force-mounted, since \<^verbatim>\<open>Content\<close> then
  renders nothing to measure. When \<^verbatim>\<open>Content\<close> is force-mounted, the measurement is
  stored in \<^verbatim>\<open>contentLayout\<close>; \<^verbatim>\<open>open\<close>, \<^verbatim>\<open>pressPosition\<close> and the id stay as
  they are.
\<close>

theorem layout_while_closed:
  assumes "\<not> open s"
  shows "step (Layout forceMountProp layout) s =
           (if dflt False forceMountProp then s\<lparr>contentLayout := Some layout\<rparr> else s)"
  using assms by (simp add: step_Layout del: step.simps(8))

theorem layout_while_closed_witness:
  "\<not> open (initial ''r1'')
   \<and> step (Layout None \<lparr>layout_x = 0, layout_y = 0, layout_width = 200, layout_height = 150\<rparr>)
        (initial ''r1'') = initial ''r1''
   \<and> step (Layout (Some True) \<lparr>layout_x = 0, layout_y = 0, layout_width = 200, layout_height = 150\<rparr>)
        (initial ''r1'')
      = \<lparr>open = False, pressPosition = None,
          contentLayout = Some \<lparr>layout_x = 0, layout_y = 0, layout_width = 200, layout_height = 150\<rparr>,
          nativeID = ''r1''\<rparr>"
proof -
  have h: "\<not> open (initial ''r1'')" by (simp add: initial_def)
  show ?thesis
    using h layout_while_closed [OF h, of None] layout_while_closed [OF h, of "Some True"]
    by (simp add: initial_def dflt_def del: step.simps(8))
qed

text \<open>C2 as stated fails: a session is activated and closed by the overlay; a
  measurement of its force-mounted content then sets \<^verbatim>\<open>contentLayout\<close>.\<close>

theorem stale_layout_recorded_when_force_mounted:
  "contentLayout (run [LongPress None \<lparr>nativeEvent_pageX = 10, nativeEvent_pageY = 20\<rparr>,
                       OverlayPress None,
                       Layout (Some True) \<lparr>layout_x = 0, layout_y = 0, layout_width = 200, layout_height = 150\<rparr>]
                   (initial ''r1''))
   = Some \<lparr>layout_x = 0, layout_y = 0, layout_width = 200, layout_height = 150\<rparr>
   \<and> \<not> open (run [LongPress None \<lparr>nativeEvent_pageX = 10, nativeEvent_pageY = 20\<rparr>,
                       OverlayPress None] (initial ''r1''))"
  by (simp add: initial_def handler_defs dflt_def step_Layout del: step.simps(8))

section \<open>The order of calls in an item press\<close>

lemma exec_snoc: "exec (es @ [e]) s = apply_effect e (exec es s)"
  by (induction es arbitrary: s) simp_all

lemma commit_call: "commit (call e h) = apply_effect e (commit h)"
  by (cases e) (simp_all add: commit_def exec_snoc)

lemma commit_handle: "commit (handle es h) = exec es (commit h)"
  by (induction es arbitrary: h) (simp_all add: commit_call)

text \<open>Running a handler and applying what it scheduled gives the session that
  \<open>exec\<close>, and with it \<open>step\<close>, computes for the next render.\<close>

lemma commit_handle_start: "commit (handle es (start s)) = exec es s"
  by (simp add: commit_handle) (simp add: commit_def start_def)

text \<open>
  C4, as amended. When an item, a checkbox item or a radio item with
  \<^verbatim>\<open>closeOnPress\<close> enabled (the default) is pressed, the three calls of
  \<^verbatim>\<open>close()\<close> are made before \<^verbatim>\<open>onSelect\<close> and none of them after it. The calls of
  \<^verbatim>\<open>close()\<close> only schedule their updates, so \<^verbatim>\<open>onSelect\<close> still finds the session
  as it was rendered, open and with its anchor if it was so; the session is closed in
  the render that follows the handler.
\<close>

theorem items_close_before_select:
  assumes "dflt True closeOnPressProp"
  shows "list_all (\<lambda>c. called_before c OnSelect (Item_onPress closeOnPressProp True h)
                     \<and> \<not> called_before OnSelect c (Item_onPress closeOnPressProp True h)) close
       \<and> list_all (\<lambda>c. called_before c OnSelect (CheckboxItem_onPress checked closeOnPressProp True h)
                     \<and> \<not> called_before OnSelect c (CheckboxItem_onPress checked closeOnPressProp True h)) close
       \<and> list_all (\<lambda>c. called_before c OnSelect (RadioItem_onPress itemValue closeOnPressProp True h)
                     \<and> \<not> called_before OnSelect c (RadioItem_onPress itemValue closeOnPressProp True h)) close
       \<and> seen_by OnSelect (Item_onPress closeOnPressProp True h) s = Some s
       \<and> seen_by OnSelect (CheckboxItem_onPress checked closeOnPressProp True h) s = Some s
       \<and> seen_by OnSelect (RadioItem_onPress itemValue closeOnPressProp True h) s = Some s
       \<and> commit (handle (Item_onPress closeOnPressProp True h) (start s))
           = s\<lparr>pressPosition := None, contentLayout := None, open := False\<rparr>
       \<and> commit (handle (CheckboxItem_onPress checked closeOnPressProp True h) (start s))
           = s\<lparr>pressPosition := None, contentLayout := None, open := False\<rparr>
       \<and> commit (handle (RadioItem_onPress itemValue closeOnPressProp True h) (start s))
           = s\<lparr>pressPosition := None, contentLayout := None, open := False\<rparr>"
  using assms
  by (cases h) (simp_all add: handler_defs seen_by_def start_def commit_def)

theorem items_close_before_select_witness:
  "dflt True None
   \<and> list_all (\<lambda>c. called_before c OnSelect (Item_onPress None True True)
                     \<and> \<not> called_before OnSelect c (Item_onPress None True True)) close
   \<and> list_all (\<lambda>c. called_before c OnSelect (CheckboxItem_onPress False None True True)
                     \<and> \<not> called_before OnSelect c (CheckboxItem_onPress False None True True)) close
   \<and> seen_by OnSelect (Item_onPress None True True)
        \<lparr>open = True, pressPosition = Some \<lparr>pageX = 10, pageY = 20, width = 0, height = 0\<rparr>,
          contentLayout = None, nativeID = ''r1''\<rparr>
      = Some \<lparr>open = True, pressPosition = Some \<lparr>pageX = 10, pageY = 20, width = 0, height = 0\<rparr>,
               contentLayout = None, nativeID = ''r1''\<rparr>
   \<and> commit (handle (Item_onPress None True True) (start
        \<lparr>open = True, pressPosition = Some \<lparr>pageX = 10, pageY = 20, width = 0, height = 0\<rparr>,
          contentLayout = None, nativeID = ''r1''\<rparr>))
      = \<lparr>open = False, pressPosition = None, contentLayout = None, nativeID = ''r1''\<rparr>"
proof -
  have h: "dflt True None" by (simp add: dflt_def)
  show ?thesis
    using h items_close_before_select [OF h, of True False "''a''"
      "\<lparr>open = True, pressPosition = Some \<lparr>pageX = 10, pageY = 20, width = 0, height = 0\<rparr>,
        contentLayout = None, nativeID = ''r1''\<rparr>"]
    by simp
qed

text \<open>C4 as stated fails: in the press of an item with \<^verbatim>\<open>closeOnPress\<close> true,
  \<^verbatim>\<open>onSelect\<close> is called before none of the calls of \<^verbatim>\<open>close()\<close>; each of them is
  made before it.\<close>

theorem select_called_after_close:
  "list_all (\<lambda>c. \<not> called_before OnSelect c (Item_onPress (Some True) True True)) close
   \<and> list_all (\<lambda>c. called_before c OnSelect (Item_onPress (Some True) True True)) close"
  by (simp add: handler_defs dflt_def)

section \<open>Components without their provider\<close>

text \<open>No hook of the file raises, whatever surrounds the component: the value it
  tests is an object in every case.\<close>

lemma hooks_never_raise:
  "useContextMenuContext p \<noteq> Inl e" "useFormItemContext q \<noteq> Inl e" "useSubContext r \<noteq> Inl e"
  by (simp_all add: render_defs split: option.splits)

text \<open>
  C3 says that a component rendered without its provider raises at once. In the code
  the hooks return the empty default object instead: outside a \<^verbatim>\<open>Root\<close> an
  \<^verbatim>\<open>Item\<close> and a force-mounted \<^verbatim>\<open>Content\<close> render their element, a \<^verbatim>\<open>Content\<close>
  that is not force-mounted renders nothing, and a \<^verbatim>\<open>RadioItem\<close> outside a
  \<^verbatim>\<open>RadioGroup\<close> renders its element.
\<close>

theorem hooks_accept_missing_provider:
  "useContextMenuContext None = Inr EmptyObject
   \<and> useFormItemContext None = Inr EmptyObject
   \<and> useSubContext None = Inr EmptyObject
   \<and> Item False None = Inr (Some (Element Pressable (Some ''menuitem'')))
   \<and> Content False (Some True) None = Inr (Some (Element Pressable (Some ''menu'')))
   \<and> Content False None None = Inr None
   \<and> RadioItem False (Some (initial ''r1'')) None = Inr (Some (Element Pressable (Some ''radio'')))"
  by (simp add: render_defs dflt_def)

section \<open>Force-mounting\<close>

text \<open>
  C6, as amended. With \<^verbatim>\<open>forceMount\<close> true, \<^verbatim>\<open>Overlay\<close>, \<^verbatim>\<open>Content\<close>,
  \<^verbatim>\<open>SubContent\<close> and \<^verbatim>\<open>ItemIndicator\<close> render their element whatever the state of
  the session or of the selection. \<^verbatim>\<open>Portal\<close> with \<^verbatim>\<open>forceMount\<close> true renders its
  subtree whatever \<^verbatim>\<open>open\<close> is, but only while \<^verbatim>\<open>pressPosition\<close> is not null; with a
  null \<^verbatim>\<open>pressPosition\<close>, or outside a \<^verbatim>\<open>Root\<close>, it renders nothing, whatever
  \<^verbatim>\<open>forceMount\<close> is.
\<close>

theorem forceMount_mounts_all_but_Portal:
  "Overlay a (Some True) p = Inr (Some (Element (if a then Slot_Pressable else Pressable) None))
   \<and> Content a (Some True) p = Inr (Some (Element (if a then Slot_Pressable else Pressable) (Some ''menu'')))
   \<and> SubContent a (Some True) q = Inr (Some (Element (if a then Slot_View else View) (Some ''group'')))
   \<and> ItemIndicator a (Some True) r f = Inr (Some (Element (if a then Slot_View else View) (Some ''presentation'')))
   \<and> Portal (Some True) hostName i (Some s) =
        (if pressPosition s = None then Inr None
         else Inr (Some (RNPPortal hostName (i @ ''-'' @ nativeID s @ ''_portal''))))
   \<and> Portal forceMountProp hostName i (Some (s\<lparr>pressPosition := None\<rparr>)) = Inr None
   \<and> Portal forceMountProp hostName i None = Inr None"
  by (cases p; cases q; cases f) (simp_all add: render_defs dflt_def split: option.splits)

text \<open>C6 as stated fails: on a session that was never activated, a \<^verbatim>\<open>Portal\<close> with
  \<^verbatim>\<open>forceMount\<close> true renders nothing.\<close>

theorem forced_Portal_not_mounted:
  "Portal (Some True) None ''p1'' (Some (initial ''r1'')) = Inr None"
  by (simp add: render_defs dflt_def initial_def)

section \<open>The placement scenario\<close>

text \<open>
  C7. For the anchor (100, 500) of zero size, a content of 200 by 150, a viewport of
  400 by 600, side bottom, alignment start, side offset 4, alignment offset 0, collision
  avoidance on and all insets 0: the panel placed below would end at 654, past the
  viewport's 600, so the engine places it on the top side, at \<^verbatim>\<open>top = 346\<close> and
  \<^verbatim>\<open>left = 100\<close>.
\<close>

theorem placement_scenario_flips_to_top:
  "primary_position Bottom \<lparr>anchor_x = 100, anchor_y = 500, anchor_width = 0, anchor_height = 0\<rparr>
      \<lparr>layout_x = 0, layout_y = 0, layout_width = 200, layout_height = 150\<rparr> 4 + 150 = 654
   \<and> overflows Bottom 504 \<lparr>layout_x = 0, layout_y = 0, layout_width = 200, layout_height = 150\<rparr>
        \<lparr>insets_top = 0, insets_bottom = 0, insets_left = 0, insets_right = 0\<rparr>
        \<lparr>viewportWidth = 400, viewportHeight = 600\<rparr>
   \<and> computePlacement \<lparr>anchor_x = 100, anchor_y = 500, anchor_width = 0, anchor_height = 0\<rparr>
        (Some \<lparr>layout_x = 0, layout_y = 0, layout_width = 200, layout_height = 150\<rparr>)
        \<lparr>side = Bottom, align = Start, sideOffset = 4, alignOffset = 0, avoidCollisions = True,
          insets = \<lparr>insets_top = 0, insets_bottom = 0, insets_left = 0, insets_right = 0\<rparr>\<rparr>
        \<lparr>viewportWidth = 400, viewportHeight = 600\<rparr>
      = Positioned Top 346 100 400"
  by (simp add: computePlacement_def clamp_left_def)

end
